theory Spec2Isabelle
  imports Complex_Main
begin

section \<open>JavaScript values\<close>

text \<open>
  The library (\<^verbatim>\<open>src/index.ts\<close>) handles values produced by \<^verbatim>\<open>JSON.parse\<close> and values it
  builds itself. A number is a double: a finite value (kept here as the rational it
  denotes, negative zero identified with zero), \<^verbatim>\<open>NaN\<close> or an infinity. Strings are the
  byte sequences of well-formed text. An object lists its own properties, each key once.
\<close>

datatype number = Num rat | NaN | PosInf | NegInf

datatype json =
    JNull
  | JBool bool
  | JNum number
  | JStr string
  | JArr "json list"
  | JObj "(string \<times> json) list"

text \<open>\<^verbatim>\<open>!n\<close> is false exactly for the numbers below (JavaScript's ToBoolean).\<close>

fun number_truthy :: "number \<Rightarrow> bool" where
  "number_truthy (Num r) = (r \<noteq> 0)"
| "number_truthy NaN = False"
| "number_truthy PosInf = True"
| "number_truthy NegInf = True"

text \<open>\<^verbatim>\<open>n <= 0\<close>: every comparison with \<^verbatim>\<open>NaN\<close> is false.\<close>

fun le_zero :: "number \<Rightarrow> bool" where
  "le_zero (Num r) = (r \<le> 0)"
| "le_zero NaN = False"
| "le_zero PosInf = False"
| "le_zero NegInf = True"

fun truthy :: "json \<Rightarrow> bool" where
  "truthy JNull = False"
| "truthy (JBool b) = b"
| "truthy (JNum n) = number_truthy n"
| "truthy (JStr s) = (s \<noteq> [])"
| "truthy (JArr xs) = True"
| "truthy (JObj kvs) = True"

text \<open>An optional value: \<open>None\<close> is \<^verbatim>\<open>undefined\<close>, which is falsy.\<close>

fun truthy_opt :: "json option \<Rightarrow> bool" where
  "truthy_opt None = False"
| "truthy_opt (Some v) = truthy v"

text \<open>\<^verbatim>\<open>a || b\<close> where \<open>b\<close> is a value.\<close>

fun or_else :: "json option \<Rightarrow> json \<Rightarrow> json" where
  "or_else None d = d"
| "or_else (Some v) d = (if truthy v then v else d)"

text \<open>
  \<^verbatim>\<open>v.k\<close> for a value \<open>v\<close> other than \<^verbatim>\<open>null\<close> (on \<^verbatim>\<open>null\<close> JavaScript throws a
  TypeError, which every caller below handles before it reads a property). Only own
  properties of objects are found: the keys read through it (\<^verbatim>\<open>error\<close>, \<^verbatim>\<open>message\<close>,
  \<^verbatim>\<open>posts\<close>, \<^verbatim>\<open>agents\<close>, \<^verbatim>\<open>submolts\<close>, \<^verbatim>\<open>pools\<close>, \<^verbatim>\<open>id\<close>, \<^verbatim>\<open>url\<close>) are defined by no
  prototype. The key \<^verbatim>\<open>length\<close> is read by \<open>length_or_0\<close> below.
\<close>

fun get_prop :: "json \<Rightarrow> string \<Rightarrow> json option" where
  "get_prop (JObj kvs) k = map_of kvs k"
| "get_prop v k = None"

text \<open>\<^verbatim>\<open>v?.k\<close> on an optional value: \<^verbatim>\<open>undefined\<close> and \<^verbatim>\<open>null\<close> give \<^verbatim>\<open>undefined\<close>.\<close>

fun opt_chain :: "json option \<Rightarrow> string \<Rightarrow> json option" where
  "opt_chain None k = None"
| "opt_chain (Some JNull) k = None"
| "opt_chain (Some v) k = get_prop v k"

section \<open>Errors\<close>

text \<open>
  A rejected promise or a thrown exception. \<open>Error v\<close> is \<^verbatim>\<open>new Error(v)\<close>: its message is
  the text of \<open>v\<close>. \<open>NetworkError\<close> is the error of the request's \<^verbatim>\<open>error\<close> event.
  \<open>RequestThrew\<close> is the exception \<^verbatim>\<open>https.request\<close> itself raises when it refuses its
  options (a path with a space, a header value with an illegal character).
  \<open>TypeError\<close> is the exception of spreading a value that is not iterable.
\<close>

datatype js_error = Error json | NetworkError | RequestThrew | TypeError

section \<open>Credential resolution\<close>

text \<open>
  The state \<^verbatim>\<open>getApiKey\<close> reads: the environment variable, the path \<^verbatim>\<open>CONFIG_FILE\<close> (a
  module constant computed from \<^verbatim>\<open>HOME\<close> by the platform's \<^verbatim>\<open>path.join\<close>), and the file at
  that path. \<open>Invalid\<close> is a file that exists and cannot be read or parsed, or whose text is
  \<^verbatim>\<open>null\<close>: each raises inside the \<^verbatim>\<open>try\<close> block. \<open>Parsed\<close> carries the field \<^verbatim>\<open>api_key\<close> of the
  declared type \<^verbatim>\<open>MoltbookCredentials\<close>, absent when the parsed value has none.
\<close>

datatype config_state = Absent | Invalid | Parsed "string option"

record env =
  MOLTBOOK_API_KEY :: "string option"
  CONFIG_FILE :: string
  config_file :: config_state

definition no_key_message :: "env \<Rightarrow> string" where
  "no_key_message e =
     ''No API key found. Set MOLTBOOK_API_KEY environment variable or create '' @
     CONFIG_FILE e @ '' with {\"api_key\": \"your_key_here\"}''"

definition NoCredential :: "env \<Rightarrow> js_error" where
  "NoCredential e = Error (JStr (no_key_message e))"

definition read_config :: "env \<Rightarrow> js_error + string" where
  "read_config e =
     (case config_file e of
        Absent \<Rightarrow> Inl (NoCredential e)
      | Invalid \<Rightarrow> Inl (NoCredential e)
      | Parsed None \<Rightarrow> Inl (NoCredential e)
      | Parsed (Some k) \<Rightarrow> (if k = [] then Inl (NoCredential e) else Inr k))"

definition getApiKey :: "env \<Rightarrow> js_error + string" where
  "getApiKey e =
     (case MOLTBOOK_API_KEY e of
        None \<Rightarrow> read_config e
      | Some k \<Rightarrow> (if k = [] then read_config e else Inr k))"

section \<open>The request dispatcher\<close>

datatype http_verb = GET | POST | PATCH | DELETE

text \<open>
  A call of \<^verbatim>\<open>https.request\<close>: the options handed to it, and the body written to the
  request it returned. The body is \<open>None\<close> when \<^verbatim>\<open>req.write\<close> is not called, otherwise it
  is the object given to \<^verbatim>\<open>JSON.stringify\<close>.
\<close>

record request =
  hostname :: string
  path :: string
  verb :: http_verb
  headers :: "(string \<times> string) list"
  body :: "json option"

text \<open>
  What the callback sees of a response: the status code, the response headers (which the
  library never reads), and the outcome of \<^verbatim>\<open>JSON.parse\<close> on the collected body, \<open>None\<close>
  when it throws.
\<close>

record response =
  statusCode :: "nat option"
  res_headers :: "(string \<times> string) list"
  parsed_body :: "json option"

text \<open>
  The transport stands for \<^verbatim>\<open>https.request\<close> and the network behind it. Given the calls
  made so far and a new one, \<^verbatim>\<open>https.request\<close> either throws at once (\<open>Threw\<close>: no request
  exists, nothing is written and nothing goes out), or returns a request that ends in an
  \<^verbatim>\<open>error\<close> event (\<open>ErrorEvent\<close>) or in a response (\<open>Answered\<close>).
\<close>

datatype outcome = Threw | ErrorEvent | Answered response

type_synonym transport = "request list \<Rightarrow> request \<Rightarrow> outcome"

record ApiResponse =
  success :: bool
  data :: "json option"
  error :: "json option"

definition failure :: "json \<Rightarrow> ApiResponse" where
  "failure v = \<lparr>success = False, data = None, error = Some v\<rparr>"

fun is_2xx :: "nat option \<Rightarrow> bool" where
  "is_2xx None = False"
| "is_2xx (Some c) = (c \<noteq> 0 \<and> 200 \<le> c \<and> c < 300)"

text \<open>
  The handler of the response's \<^verbatim>\<open>end\<close> event. One \<^verbatim>\<open>try\<close> block holds the parse and the
  reads of \<^verbatim>\<open>parsed.error\<close> and \<^verbatim>\<open>parsed.message\<close>, so a body \<^verbatim>\<open>null\<close> with a status
  outside 2xx ends in the \<^verbatim>\<open>catch\<close> branch as a parse failure does.
\<close>

definition on_end :: "response \<Rightarrow> ApiResponse" where
  "on_end res =
     (case parsed_body res of
        None \<Rightarrow> failure (JStr ''Failed to parse response'')
      | Some parsed \<Rightarrow>
          if is_2xx (statusCode res)
          then \<lparr>success = True, data = Some parsed, error = None\<rparr>
          else (case parsed of
                  JNull \<Rightarrow> failure (JStr ''Failed to parse response'')
                | _ \<Rightarrow> failure (or_else (get_prop parsed ''error'')
                                (or_else (get_prop parsed ''message'') (JStr ''Request failed'')))))"

definition mk_request :: "string \<Rightarrow> http_verb \<Rightarrow> string \<Rightarrow> (string \<times> json) list option \<Rightarrow> request" where
  "mk_request apiKey m endpoint d =
     \<lparr>hostname = ''www.moltbook.com'',
      path = ''/api/v1'' @ endpoint,
      verb = m,
      headers = [(''Authorization'', ''Bearer '' @ apiKey),
                 (''Content-Type'', ''application/json''),
                 (''User-Agent'', ''OpenClaw-Moltbook-Skill/1.0.0'')],
      body = map_option JObj d\<rparr>"

text \<open>
  \<^verbatim>\<open>apiRequest\<close>: the result of the promise, and the log extended by the call of
  \<^verbatim>\<open>https.request\<close> when one is made. The log lists the calls in order, each with the body
  that was written: when \<^verbatim>\<open>https.request\<close> throws, the lines that write the body are never
  reached, so that call is logged without a body and the promise is rejected with the
  exception. The key is resolved first, before any call. The value
  \<^verbatim>\<open>new URL(endpoint, BASE_URL)\<close> is never used, and for the endpoints of the actions, which
  all begin with a path segment, computing it cannot fail.
\<close>

definition apiRequest ::
  "env \<Rightarrow> transport \<Rightarrow> request list \<Rightarrow> http_verb \<Rightarrow> string \<Rightarrow> (string \<times> json) list option
     \<Rightarrow> (js_error + ApiResponse) \<times> request list" where
  "apiRequest e tr sent m endpoint d =
     (case getApiKey e of
        Inl err \<Rightarrow> (Inl err, sent)
      | Inr apiKey \<Rightarrow>
          (let req = mk_request apiKey m endpoint d in
           case tr sent req of
             Threw \<Rightarrow> (Inl RequestThrew, sent @ [req\<lparr>body := None\<rparr>])
           | ErrorEvent \<Rightarrow> (Inl NetworkError, sent @ [req])
           | Answered res \<Rightarrow> (Inr (on_end res), sent @ [req])))"

section \<open>Building endpoints\<close>

text \<open>
  \<^verbatim>\<open>encodeURIComponent\<close>: every byte of the text is replaced by \<^verbatim>\<open>%XX\<close> except the letters,
  the digits and \<^verbatim>\<open>- _ . ! ~ * ' ( )\<close>.
\<close>

definition uri_unreserved :: "char \<Rightarrow> bool" where
  "uri_unreserved c =
     (c \<in> set (''ABCDEFGHIJKLMNOPQRSTUVWXYZabcdefghijklmnopqrstuvwxyz0123456789-_.!~*()'' @ [CHR 0x27]))"

definition hex_digit :: "nat \<Rightarrow> char" where
  "hex_digit n = ''0123456789ABCDEF'' ! (n mod 16)"

definition pct_encode :: "char \<Rightarrow> string" where
  "pct_encode c = [CHR ''%'', hex_digit (of_char c div 16), hex_digit (of_char c mod 16)]"

definition encodeURIComponent :: "string \<Rightarrow> string" where
  "encodeURIComponent s = concat (map (\<lambda>c. if uri_unreserved c then [c] else pct_encode c) s)"

datatype sort_key = Hot | New | Top | Rising

fun sort_str :: "sort_key \<Rightarrow> string" where
  "sort_str Hot = ''hot''"
| "sort_str New = ''new''"
| "sort_str Top = ''top''"
| "sort_str Rising = ''rising''"

text \<open>
  A template literal turns an interpolated value that is not a string into text by
  JavaScript's ToString. That conversion is a parameter \<open>str\<close> of the functions that
  interpolate a number or a value of the response (\<open>None\<close> is \<^verbatim>\<open>undefined\<close>).
\<close>

type_synonym to_string = "json option \<Rightarrow> string"

definition search_endpoint :: "to_string \<Rightarrow> string \<Rightarrow> number \<Rightarrow> string" where
  "search_endpoint str query lmt =
     ''/search?q='' @ encodeURIComponent query @ ''&limit='' @ str (Some (JNum lmt))"

definition submolt_posts_endpoint :: "to_string \<Rightarrow> string \<Rightarrow> sort_key \<Rightarrow> number \<Rightarrow> string" where
  "submolt_posts_endpoint str submolt srt lmt =
     ''/submolts/'' @ submolt @ ''/posts?sort='' @ sort_str srt @ ''&limit='' @ str (Some (JNum lmt))"

definition posts_endpoint :: "to_string \<Rightarrow> sort_key \<Rightarrow> number \<Rightarrow> string" where
  "posts_endpoint str srt lmt =
     ''/posts?sort='' @ sort_str srt @ ''&limit='' @ str (Some (JNum lmt))"

section \<open>The exported actions\<close>

text \<open>
  Every action takes the environment, the transport and the log of calls made so far,
  and returns the settled promise (\<open>Inl\<close> a rejection) with the log extended. An optional
  argument is an option; a string argument that is required by its type may still be
  empty.
\<close>

fun str_truthy :: "string option \<Rightarrow> bool" where
  "str_truthy None = False"
| "str_truthy (Some s) = (s \<noteq> [])"

fun limit_or_25 :: "number option \<Rightarrow> number" where
  "limit_or_25 None = Num 25"
| "limit_or_25 (Some n) = n"

fun sort_or_hot :: "sort_key option \<Rightarrow> sort_key" where
  "sort_or_hot None = Hot"
| "sort_or_hot (Some s) = s"

text \<open>
  A string is iterated by code points and measured in UTF-16 units. In the bytes of
  well-formed UTF-8 text a code point is a byte that is no continuation byte, followed
  by its continuation bytes; it takes two UTF-16 units when its first byte is
  \<^verbatim>\<open>0xF0\<close> or more, and one otherwise.
\<close>

definition is_cont :: "char \<Rightarrow> bool" where
  "is_cont c = (128 \<le> (of_char c :: nat) \<and> (of_char c :: nat) < 192)"

function code_points :: "string \<Rightarrow> string list" where
  "code_points [] = []"
| "code_points (c # cs) = (c # takeWhile is_cont cs) # code_points (dropWhile is_cont cs)"
  by pat_completeness auto
termination
  by (relation "measure length") (auto simp: length_dropWhile_le less_Suc_eq_le)

definition utf16_length :: "string \<Rightarrow> nat" where
  "utf16_length s =
     length (filter (\<lambda>c. \<not> is_cont c) s) + length (filter (\<lambda>c. 240 \<le> (of_char c :: nat)) s)"

text \<open>
  The spread \<^verbatim>\<open>...v\<close> inside an array literal: the elements of an array, the code points
  of a string, and a TypeError for every other value, none of which is iterable.
\<close>

fun spread :: "json \<Rightarrow> js_error + json list" where
  "spread (JArr xs) = Inr xs"
| "spread (JStr s) = Inr (map JStr (code_points s))"
| "spread v = Inl TypeError"

text \<open>
  \<^verbatim>\<open>v?.length || 0\<close>. An array and a string have a length; \<^verbatim>\<open>undefined\<close>, \<^verbatim>\<open>null\<close>, a
  number and a boolean have none; an object has the one it holds as a property, if any.
  \<open>Len n\<close> is the number \<open>n\<close>; \<open>Prop v\<close> is the truthy value \<open>v\<close> of such a property.
\<close>

datatype operand = Len nat | Prop json

fun length_or_0 :: "json option \<Rightarrow> operand" where
  "length_or_0 (Some (JArr xs)) = Len (length xs)"
| "length_or_0 (Some (JStr s)) = Len (utf16_length s)"
| "length_or_0 (Some (JObj kvs)) =
     (case map_of kvs ''length'' of
        None \<Rightarrow> Len 0
      | Some v \<Rightarrow> if truthy v then Prop v else Len 0)"
| "length_or_0 v = Len 0"

text \<open>
  The sum \<^verbatim>\<open>a + b + c\<close> of three such operands. The sum of three lengths is their sum.
  With an operand that some object supplied, the result is whatever JavaScript's \<^verbatim>\<open>+\<close>
  makes of the three values, and is kept as that: \<open>Mixed a b c\<close>.
\<close>

datatype total = Count nat | Mixed operand operand operand

fun plus3 :: "operand \<Rightarrow> operand \<Rightarrow> operand \<Rightarrow> total" where
  "plus3 (Len a) (Len b) (Len c) = Count (a + b + c)"
| "plus3 a b c = Mixed a b c"

record DiscoverResult =
  posts :: "json list"
  agents :: json
  submolts :: json
  total_results :: total

text \<open>
  The block guarded by \<^verbatim>\<open>if (submolt)\<close>: the value of \<^verbatim>\<open>submoltPosts\<close>. It starts as the
  empty array and becomes \<^verbatim>\<open>submoltResult.data.posts || []\<close> when a community is named and
  its call succeeds with truthy data.
\<close>

definition fetch_submolt_posts ::
  "to_string \<Rightarrow> env \<Rightarrow> transport \<Rightarrow> request list \<Rightarrow> number \<Rightarrow> sort_key \<Rightarrow> string option
     \<Rightarrow> (js_error + json) \<times> request list" where
  "fetch_submolt_posts str e tr sent lmt srt submolt =
     (case submolt of
        None \<Rightarrow> (Inr (JArr []), sent)
      | Some s \<Rightarrow>
          if s = [] then (Inr (JArr []), sent)
          else (case apiRequest e tr sent GET (submolt_posts_endpoint str s srt lmt) None of
                  (Inl err, sent') \<Rightarrow> (Inl err, sent')
                | (Inr submoltResult, sent') \<Rightarrow>
                    if success submoltResult \<and> truthy_opt (data submoltResult)
                    then (Inr (or_else (opt_chain (data submoltResult) ''posts'') (JArr [])), sent')
                    else (Inr (JArr []), sent')))"

text \<open>
  The object returned by \<^verbatim>\<open>discover_opportunities\<close>, from the data of the search and the
  value of \<^verbatim>\<open>submoltPosts\<close>. The two spreads come first and may throw.
\<close>

definition discover_result :: "json option \<Rightarrow> json \<Rightarrow> js_error + DiscoverResult" where
  "discover_result d submoltPosts =
     (case spread (or_else (opt_chain d ''posts'') (JArr [])) of
        Inl err \<Rightarrow> Inl err
      | Inr ps \<Rightarrow>
          (case spread submoltPosts of
             Inl err \<Rightarrow> Inl err
           | Inr sps \<Rightarrow>
               Inr \<lparr>posts = ps @ sps,
                    agents = or_else (opt_chain d ''agents'') (JArr []),
                    submolts = or_else (opt_chain d ''submolts'') (JArr []),
                    total_results = plus3 (length_or_0 (opt_chain d ''posts''))
                                          (length_or_0 (opt_chain d ''agents''))
                                          (length_or_0 (opt_chain d ''submolts''))\<rparr>))"

definition discover_opportunities ::
  "to_string \<Rightarrow> env \<Rightarrow> transport \<Rightarrow> request list \<Rightarrow> string \<Rightarrow> number option \<Rightarrow> sort_key option
     \<Rightarrow> string option \<Rightarrow> (js_error + DiscoverResult) \<times> request list" where
  "discover_opportunities str e tr sent query limit srt submolt =
     (case apiRequest e tr sent GET (search_endpoint str query (limit_or_25 limit)) None of
        (Inl err, sent1) \<Rightarrow> (Inl err, sent1)
      | (Inr searchResult, sent1) \<Rightarrow>
          if \<not> success searchResult
          then (Inl (Error (or_else (error searchResult) (JStr ''Failed to search''))), sent1)
          else if \<not> truthy_opt (data searchResult)
          then (Inl (Error (or_else (error searchResult) (JStr ''Failed to search''))), sent1)
          else (case fetch_submolt_posts str e tr sent1 (limit_or_25 limit) (sort_or_hot srt) submolt of
                  (Inl err, sent2) \<Rightarrow> (Inl err, sent2)
                | (Inr submoltPosts, sent2) \<Rightarrow> (discover_result (data searchResult) submoltPosts, sent2)))"

definition contribute_qf ::
  "env \<Rightarrow> transport \<Rightarrow> request list \<Rightarrow> string \<Rightarrow> number \<Rightarrow> (js_error + json) \<times> request list" where
  "contribute_qf e tr sent pool_id amount =
     (if pool_id = [] then (Inl (Error (JStr ''pool_id is required'')), sent)
      else if \<not> number_truthy amount then (Inl (Error (JStr ''amount must be a positive number'')), sent)
      else if le_zero amount then (Inl (Error (JStr ''amount must be a positive number'')), sent)
      else (case apiRequest e tr sent POST (''/qf/pools/'' @ pool_id @ ''/contribute'')
                   (Some [(''amount'', JNum amount)]) of
              (Inl err, sent1) \<Rightarrow> (Inl err, sent1)
            | (Inr result, sent1) \<Rightarrow>
                if success result
                then (Inr (or_else (data result)
                        (JObj [(''success'', JBool True), (''pool_id'', JStr pool_id),
                               (''amount_contributed'', JNum amount), (''new_total'', JNum amount),
                               (''matching_multiplier'', JNum (Num 1)),
                               (''message'', JStr ''Contribution successful'')])), sent1)
                else (Inl (Error (or_else (error result) (JStr ''Failed to contribute to QF pool''))), sent1)))"

text \<open>
  The check \<^verbatim>\<open>if (!result.success || !result.data) throw new Error(result.error || msg)\<close>
  followed by \<^verbatim>\<open>return result.data\<close>.
\<close>

definition require_data :: "ApiResponse \<Rightarrow> string \<Rightarrow> js_error + json" where
  "require_data result msg =
     (if \<not> success result then Inl (Error (or_else (error result) (JStr msg)))
      else (case data result of
              None \<Rightarrow> Inl (Error (or_else (error result) (JStr msg)))
            | Some d \<Rightarrow> if truthy d then Inr d else Inl (Error (or_else (error result) (JStr msg)))))"

definition list_qf_pools :: "env \<Rightarrow> transport \<Rightarrow> request list \<Rightarrow> (js_error + json) \<times> request list" where
  "list_qf_pools e tr sent =
     (case apiRequest e tr sent GET ''/qf/pools'' None of
        (Inl err, sent1) \<Rightarrow> (Inl err, sent1)
      | (Inr result, sent1) \<Rightarrow>
          if success result
          then (Inr (or_else (opt_chain (data result) ''pools'') (JArr [])), sent1)
          else (Inl (Error (or_else (error result) (JStr ''Failed to list QF pools''))), sent1))"

definition get_qf_pool ::
  "env \<Rightarrow> transport \<Rightarrow> request list \<Rightarrow> string \<Rightarrow> (js_error + json) \<times> request list" where
  "get_qf_pool e tr sent pool_id =
     (case apiRequest e tr sent GET (''/qf/pools/'' @ pool_id) None of
        (Inl err, sent1) \<Rightarrow> (Inl err, sent1)
      | (Inr result, sent1) \<Rightarrow> (require_data result ''Failed to get QF pool details'', sent1))"

definition join_pool ::
  "env \<Rightarrow> transport \<Rightarrow> request list \<Rightarrow> string \<Rightarrow> (js_error + json) \<times> request list" where
  "join_pool e tr sent pool_id =
     (if pool_id = [] then (Inl (Error (JStr ''pool_id is required'')), sent)
      else (case apiRequest e tr sent POST (''/pools/'' @ pool_id @ ''/join'') (Some []) of
              (Inl err, sent1) \<Rightarrow> (Inl err, sent1)
            | (Inr result, sent1) \<Rightarrow>
                if success result
                then (Inr (or_else (data result)
                        (JObj [(''success'', JBool True), (''pool_id'', JStr pool_id),
                               (''pool_name'', JStr ''Unknown''), (''member_count'', JNum (Num 1)),
                               (''message'', JStr ''Successfully joined pool'')])), sent1)
                else (Inl (Error (or_else (error result) (JStr ''Failed to join pool''))), sent1)))"

definition leave_pool ::
  "env \<Rightarrow> transport \<Rightarrow> request list \<Rightarrow> string \<Rightarrow> (js_error + json) \<times> request list" where
  "leave_pool e tr sent pool_id =
     (case apiRequest e tr sent DELETE (''/pools/'' @ pool_id @ ''/leave'') None of
        (Inl err, sent1) \<Rightarrow> (Inl err, sent1)
      | (Inr result, sent1) \<Rightarrow>
          if success result
          then (Inr (or_else (data result)
                  (JObj [(''success'', JBool True), (''message'', JStr ''Left pool successfully'')])), sent1)
          else (Inl (Error (or_else (error result) (JStr ''Failed to leave pool''))), sent1))"

definition list_joined_pools :: "env \<Rightarrow> transport \<Rightarrow> request list \<Rightarrow> (js_error + json) \<times> request list" where
  "list_joined_pools e tr sent =
     (case apiRequest e tr sent GET ''/pools/joined'' None of
        (Inl err, sent1) \<Rightarrow> (Inl err, sent1)
      | (Inr result, sent1) \<Rightarrow>
          if success result
          then (Inr (or_else (opt_chain (data result) ''pools'') (JArr [])), sent1)
          else (Inl (Error (or_else (error result) (JStr ''Failed to list joined pools''))), sent1))"

text \<open>
  \<^verbatim>\<open>post_update\<close> builds \<^verbatim>\<open>postData\<close> from the two required fields and adds \<^verbatim>\<open>content\<close> and
  \<^verbatim>\<open>url\<close> only when they are truthy.
\<close>

definition postData :: "string \<Rightarrow> string \<Rightarrow> string option \<Rightarrow> string option \<Rightarrow> (string \<times> json) list" where
  "postData submolt title content url =
     [(''submolt'', JStr submolt), (''title'', JStr title)]
     @ (case content of None \<Rightarrow> [] | Some c \<Rightarrow> if c = [] then [] else [(''content'', JStr c)])
     @ (case url of None \<Rightarrow> [] | Some u \<Rightarrow> if u = [] then [] else [(''url'', JStr u)])"

definition post_update ::
  "to_string \<Rightarrow> env \<Rightarrow> transport \<Rightarrow> request list \<Rightarrow> string \<Rightarrow> string \<Rightarrow> string option \<Rightarrow> string option
     \<Rightarrow> (js_error + json) \<times> request list" where
  "post_update str e tr sent submolt title content url =
     (if submolt = [] then (Inl (Error (JStr ''submolt is required'')), sent)
      else if title = [] then (Inl (Error (JStr ''title is required'')), sent)
      else if \<not> str_truthy content \<and> \<not> str_truthy url
      then (Inl (Error (JStr ''Either content or url is required'')), sent)
      else (case apiRequest e tr sent POST ''/posts'' (Some (postData submolt title content url)) of
              (Inl err, sent1) \<Rightarrow> (Inl err, sent1)
            | (Inr result, sent1) \<Rightarrow>
                if success result
                then (Inr (JObj
                        [(''success'', JBool True),
                         (''post_id'', or_else (opt_chain (data result) ''id'') (JStr [])),
                         (''submolt'', JStr submolt),
                         (''title'', JStr title),
                         (''url'', or_else (opt_chain (data result) ''url'')
                            (JStr (''https://www.moltbook.com/m/'' @ submolt @ ''/posts/'' @
                                   str (opt_chain (data result) ''id'')))),
                         (''message'', JStr ''Post created successfully'')]), sent1)
                else (Inl (Error (or_else (error result) (JStr ''Failed to create post''))), sent1)))"

section \<open>The helper actions\<close>

definition add_comment ::
  "env \<Rightarrow> transport \<Rightarrow> request list \<Rightarrow> string \<Rightarrow> string \<Rightarrow> string option
     \<Rightarrow> (js_error + json) \<times> request list" where
  "add_comment e tr sent post_id content parent_id =
     (case apiRequest e tr sent POST (''/posts/'' @ post_id @ ''/comments'')
             (Some ([(''content'', JStr content)]
                @ (case parent_id of None \<Rightarrow> [] | Some p \<Rightarrow> if p = [] then [] else [(''parent_id'', JStr p)]))) of
        (Inl err, sent1) \<Rightarrow> (Inl err, sent1)
      | (Inr result, sent1) \<Rightarrow>
          if success result
          then (Inr (JObj [(''success'', JBool True),
                           (''comment_id'', or_else (opt_chain (data result) ''id'') (JStr []))]), sent1)
          else (Inl (Error (or_else (error result) (JStr ''Failed to add comment''))), sent1))"

text \<open>
  \<^verbatim>\<open>upvote_post\<close>, \<^verbatim>\<open>downvote_post\<close> and \<^verbatim>\<open>subscribe_submolt\<close> differ in the endpoint and in the
  fallback message only: a POST with the empty object, answered by \<^verbatim>\<open>{ success: true }\<close>.
\<close>

definition post_empty ::
  "env \<Rightarrow> transport \<Rightarrow> request list \<Rightarrow> string \<Rightarrow> string \<Rightarrow> (js_error + json) \<times> request list" where
  "post_empty e tr sent endpoint msg =
     (case apiRequest e tr sent POST endpoint (Some []) of
        (Inl err, sent1) \<Rightarrow> (Inl err, sent1)
      | (Inr result, sent1) \<Rightarrow>
          if success result then (Inr (JObj [(''success'', JBool True)]), sent1)
          else (Inl (Error (or_else (error result) (JStr msg))), sent1))"

definition upvote_post ::
  "env \<Rightarrow> transport \<Rightarrow> request list \<Rightarrow> string \<Rightarrow> (js_error + json) \<times> request list" where
  "upvote_post e tr sent post_id =
     post_empty e tr sent (''/posts/'' @ post_id @ ''/upvote'') ''Failed to upvote post''"

definition downvote_post ::
  "env \<Rightarrow> transport \<Rightarrow> request list \<Rightarrow> string \<Rightarrow> (js_error + json) \<times> request list" where
  "downvote_post e tr sent post_id =
     post_empty e tr sent (''/posts/'' @ post_id @ ''/downvote'') ''Failed to downvote post''"

definition subscribe_submolt ::
  "env \<Rightarrow> transport \<Rightarrow> request list \<Rightarrow> string \<Rightarrow> (js_error + json) \<times> request list" where
  "subscribe_submolt e tr sent submolt_name =
     post_empty e tr sent (''/submolts/'' @ submolt_name @ ''/subscribe'') ''Failed to subscribe to submolt''"

definition get_profile :: "env \<Rightarrow> transport \<Rightarrow> request list \<Rightarrow> (js_error + json) \<times> request list" where
  "get_profile e tr sent =
     (case apiRequest e tr sent GET ''/agents/me'' None of
        (Inl err, sent1) \<Rightarrow> (Inl err, sent1)
      | (Inr result, sent1) \<Rightarrow> (require_data result ''Failed to get profile'', sent1))"

definition get_status :: "env \<Rightarrow> transport \<Rightarrow> request list \<Rightarrow> (js_error + json) \<times> request list" where
  "get_status e tr sent =
     (case apiRequest e tr sent GET ''/agents/status'' None of
        (Inl err, sent1) \<Rightarrow> (Inl err, sent1)
      | (Inr result, sent1) \<Rightarrow> (require_data result ''Failed to get status'', sent1))"

text \<open>
  \<^verbatim>\<open>get_feed\<close>: a community changes the path; the data may be the array itself or an object
  holding it under \<^verbatim>\<open>posts\<close>.
\<close>

fun feed_posts :: "json option \<Rightarrow> json" where
  "feed_posts (Some (JArr xs)) = JArr xs"
| "feed_posts d = or_else (opt_chain d ''posts'') (JArr [])"

definition feed_endpoint :: "to_string \<Rightarrow> sort_key \<Rightarrow> number \<Rightarrow> string option \<Rightarrow> string" where
  "feed_endpoint str srt lmt submolt =
     (case submolt of
        None \<Rightarrow> posts_endpoint str srt lmt
      | Some s \<Rightarrow> if s = [] then posts_endpoint str srt lmt else submolt_posts_endpoint str s srt lmt)"

definition get_feed ::
  "to_string \<Rightarrow> env \<Rightarrow> transport \<Rightarrow> request list \<Rightarrow> sort_key option \<Rightarrow> number option \<Rightarrow> string option
     \<Rightarrow> (js_error + json) \<times> request list" where
  "get_feed str e tr sent srt limit submolt =
     (case apiRequest e tr sent GET (feed_endpoint str (sort_or_hot srt) (limit_or_25 limit) submolt) None of
        (Inl err, sent1) \<Rightarrow> (Inl err, sent1)
      | (Inr result, sent1) \<Rightarrow>
          if success result then (Inr (feed_posts (data result)), sent1)
          else (Inl (Error (or_else (error result) (JStr ''Failed to get feed''))), sent1))"

text \<open>The calls of \<^verbatim>\<open>https.request\<close> that an action added to the log it was given.\<close>

definition new_requests :: "request list \<Rightarrow> 'a \<times> request list \<Rightarrow> request list" where
  "new_requests sent result = drop (length sent) (snd result)"

section \<open>The shell client\<close>

text \<open>
  The script \<^verbatim>\<open>moltbook.sh\<close> runs under \<^verbatim>\<open>bash\<close> with \<^verbatim>\<open>set -e\<close>. It first sets its global
  variable by \<^verbatim>\<open>API_KEY=$(get_api_key)\<close> and then runs one command.

  The builtin \<^verbatim>\<open>echo\<close>, called with one argument: an argument made of a dash and one or
  more of the letters \<^verbatim>\<open>n\<close>, \<^verbatim>\<open>e\<close>, \<^verbatim>\<open>E\<close> is taken as options and not printed, and the
  final newline is left out when \<^verbatim>\<open>n\<close> is among them; any other argument is printed,
  followed by a newline. A command substitution drops the newlines at the end of what
  was printed.
\<close>

definition newline :: char where
  "newline = CHR 0x0A"

definition is_echo_option :: "string \<Rightarrow> bool" where
  "is_echo_option arg =
     (case arg of
        [] \<Rightarrow> False
      | c # cs \<Rightarrow> c = CHR ''-'' \<and> cs \<noteq> [] \<and> list_all (\<lambda>x. x = CHR ''n'' \<or> x = CHR ''e'' \<or> x = CHR ''E'') cs)"

definition echo :: "string \<Rightarrow> string" where
  "echo arg =
     (if is_echo_option arg then (if CHR ''n'' \<in> set arg then [] else [newline])
      else arg @ [newline])"

definition strip_newlines :: "string \<Rightarrow> string" where
  "strip_newlines s = rev (dropWhile (\<lambda>c. c = newline) (rev s))"

text \<open>
  What \<^verbatim>\<open>get_api_key\<close> finds at \<^verbatim>\<open>CONFIG_FILE\<close> when it gets there: no regular file; or
  the outcome of \<^verbatim>\<open>jq -r '.api_key // empty'\<close> on the file, which either fails (the file
  cannot be read or parsed) or prints a text.
\<close>

datatype sh_config = NoFile | JqFails | JqPrints string

text \<open>
  \<^verbatim>\<open>get_api_key\<close>: what it prints, or \<open>None\<close> when it returns a status other than zero (the
  status of \<^verbatim>\<open>jq\<close>, its last command). The environment variable is a text, empty when it
  is not set.
\<close>

definition get_api_key :: "string \<Rightarrow> sh_config \<Rightarrow> string option" where
  "get_api_key MOLTBOOK_API_KEY_value cfg =
     (if MOLTBOOK_API_KEY_value \<noteq> [] then Some (echo MOLTBOOK_API_KEY_value)
      else (case cfg of
              NoFile \<Rightarrow> Some (echo [])
            | JqFails \<Rightarrow> None
            | JqPrints s \<Rightarrow> Some s))"

text \<open>
  The value of \<^verbatim>\<open>API_KEY\<close> after \<^verbatim>\<open>API_KEY=$(get_api_key)\<close>, or \<open>None\<close> when the script
  stops there: the assignment has the status of the substitution, and \<^verbatim>\<open>set -e\<close> ends the
  script on a status other than zero.
\<close>

definition startup_API_KEY :: "string \<Rightarrow> sh_config \<Rightarrow> string option" where
  "startup_API_KEY MOLTBOOK_API_KEY_value cfg =
     map_option strip_newlines (get_api_key MOLTBOOK_API_KEY_value cfg)"

text \<open>
  Every request is made through \<^verbatim>\<open>api_request\<close>, one \<^verbatim>\<open>curl\<close> call with the option
  \<^verbatim>\<open>--location-trusted\<close>. A positional parameter that is not given is the empty string.
  The shell variable \<^verbatim>\<open>data\<close> holds JSON text, kept here as the value the text denotes:
  \<open>None\<close> is the empty string, for which \<^verbatim>\<open>api_request\<close> passes no \<^verbatim>\<open>-d\<close>.
\<close>

definition BASE_URL :: string where
  "BASE_URL = ''https://www.moltbook.com/api/v1''"

record curl_call =
  curl_verb :: http_verb
  curl_url :: string
  curl_headers :: "(string \<times> string) list"
  curl_data :: "json option"
  location_trusted :: bool

definition api_request :: "string \<Rightarrow> http_verb \<Rightarrow> string \<Rightarrow> json option \<Rightarrow> curl_call" where
  "api_request API_KEY m endpoint d =
     \<lparr>curl_verb = m,
      curl_url = BASE_URL @ endpoint,
      curl_headers = [(''Authorization'', ''Bearer '' @ API_KEY),
                      (''Content-Type'', ''application/json'')],
      curl_data = d,
      location_trusted = True\<rparr>"

text \<open>
  How a command ends: with the usage line and status 1, with the message of \<^verbatim>\<open>check_auth\<close>
  and status 1, or by running \<^verbatim>\<open>curl\<close> and printing what it returns.
\<close>

datatype sh_outcome = Usage string | NoKey | Ran curl_call

definition cmd_profile :: "string \<Rightarrow> sh_outcome" where
  "cmd_profile API_KEY =
     (if API_KEY = [] then NoKey
      else Ran (api_request API_KEY GET ''/agents/me'' None))"

text \<open>
  \<^verbatim>\<open>cmd_discover\<close> encodes its query with \<^verbatim>\<open>echo "$query" | jq -sRr @uri\<close>; the parameter
  \<open>uri\<close> is the text that pipeline prints for a query.
\<close>

definition cmd_discover :: "(string \<Rightarrow> string) \<Rightarrow> string \<Rightarrow> string \<Rightarrow> sh_outcome" where
  "cmd_discover uri API_KEY query =
     (if query = [] then Usage ''Usage: moltbook.sh discover <query>''
      else if API_KEY = [] then NoKey
      else Ran (api_request API_KEY GET (''/search?q='' @ uri query @ ''&limit=25'') None))"

text \<open>
  \<^verbatim>\<open>cmd_qf_contribute\<close> builds its body with \<^verbatim>\<open>jq -n --arg amt "$amount" '{amount: ($amt | tonumber)}'\<close>.
  The parameter \<open>tonumber\<close> is the filter of that name: the number a text denotes, or
  \<open>None\<close> when \<^verbatim>\<open>jq\<close> stops with an error and prints nothing. The assignment is made by
  \<^verbatim>\<open>local data=$(...)\<close>, whose status is that of \<^verbatim>\<open>local\<close>, so the script goes on with an
  empty \<^verbatim>\<open>data\<close>.
\<close>

definition cmd_qf_contribute :: "(string \<Rightarrow> number option) \<Rightarrow> string \<Rightarrow> string \<Rightarrow> string \<Rightarrow> sh_outcome" where
  "cmd_qf_contribute tonumber API_KEY pool_id amount =
     (if pool_id = [] \<or> amount = [] then Usage ''Usage: moltbook.sh qf_contribute <pool_id> <amount>''
      else if API_KEY = [] then NoKey
      else Ran (api_request API_KEY POST (''/qf/pools/'' @ pool_id @ ''/contribute'')
                  (map_option (\<lambda>n. JObj [(''amount'', JNum n)]) (tonumber amount))))"

definition cmd_agent_info :: "string \<Rightarrow> string \<Rightarrow> sh_outcome" where
  "cmd_agent_info API_KEY agent_name =
     (if agent_name = [] then Usage ''Usage: moltbook.sh agent_info <agent_name>''
      else if API_KEY = [] then NoKey
      else Ran (api_request API_KEY GET (''/agents/profile?name='' @ agent_name) None))"

section \<open>Credential resolution: properties\<close>

text \<open>
  In the library the environment wins: whenever the environment variable is set and
  non-empty, \<^verbatim>\<open>getApiKey\<close> returns its value, whatever the configuration file holds.
\<close>

lemma getApiKey_env_wins:
  assumes "MOLTBOOK_API_KEY e = Some k" and "k \<noteq> []"
  shows "getApiKey e = Inr k \<and> getApiKey (e\<lparr>config_file := c\<rparr>) = Inr k"
  using assms by (simp add: getApiKey_def)

lemma getApiKey_env_wins_example:
  "getApiKey \<lparr>MOLTBOOK_API_KEY = Some ''env-key'', CONFIG_FILE = ''/home/u/.config/moltbook/credentials.json'',
              config_file = Parsed (Some ''file-key'')\<rparr> = Inr ''env-key''"
  by (simp add: getApiKey_def)

text \<open>Without the environment variable the key of the file is used.\<close>

lemma getApiKey_file_fallback:
  assumes "MOLTBOOK_API_KEY e = None \<or> MOLTBOOK_API_KEY e = Some []"
    and "config_file e = Parsed (Some k)" and "k \<noteq> []"
  shows "getApiKey e = Inr k"
  using assms by (auto simp: getApiKey_def read_config_def)




section \<open>The dispatcher: properties\<close>

lemma apiRequest_sent:
  "snd (apiRequest e tr sent m endpoint d) =
     sent @ (case getApiKey e of
               Inl err \<Rightarrow> []
             | Inr k \<Rightarrow> [if tr sent (mk_request k m endpoint d) = Threw
                         then (mk_request k m endpoint d)\<lparr>body := None\<rparr>
                         else mk_request k m endpoint d])"
  by (simp add: apiRequest_def Let_def split: sum.splits outcome.splits)

lemma apiRequest_answer:
  assumes "getApiKey e = Inr k" and "tr sent (mk_request k m endpoint d) = Answered res"
  shows "apiRequest e tr sent m endpoint d = (Inr (on_end res), sent @ [mk_request k m endpoint d])"
  using assms by (simp add: apiRequest_def Let_def)

text \<open>
  C1, as the source has it. The message of the parse failure is the text
  \<^verbatim>\<open>Failed to parse response\<close>, not \<^verbatim>\<open>parse failure\<close>; and a body that parses to \<^verbatim>\<open>null\<close>
  under a status outside 2xx is reported with that same message, not with the
  fallback.
\<close>

theorem on_end_counterexample:
  "error (on_end \<lparr>statusCode = Some 200, res_headers = [], parsed_body = None\<rparr>)
     = Some (JStr ''Failed to parse response'')
   \<and> on_end \<lparr>statusCode = Some 200, res_headers = [], parsed_body = None\<rparr>
     \<noteq> failure (JStr ''parse failure'')
   \<and> on_end \<lparr>statusCode = Some 404, res_headers = [], parsed_body = Some JNull\<rparr>
     = failure (JStr ''Failed to parse response'')"
  by (simp add: on_end_def failure_def)

text \<open>
  C1, amended. Every response the transport delivers is turned into an envelope, and the
  promise resolves. A body that does not parse gives the failure
  \<^verbatim>\<open>Failed to parse response\<close>. A body that parses under a 2xx status gives success with the
  parsed body as data. A body that parses to a value other than \<^verbatim>\<open>null\<close> under any other
  status gives a failure whose error is the body's \<^verbatim>\<open>error\<close> field when that is truthy,
  else its \<^verbatim>\<open>message\<close> field when that is truthy, else \<^verbatim>\<open>Request failed\<close>.
\<close>

theorem apiRequest_envelope:
  assumes "getApiKey e = Inr k" and "tr sent (mk_request k m endpoint d) = Answered res"
  shows "fst (apiRequest e tr sent m endpoint d) = Inr (on_end res)
       \<and> (parsed_body res = None \<longrightarrow> on_end res = failure (JStr ''Failed to parse response''))
       \<and> (\<forall>p. parsed_body res = Some p \<and> is_2xx (statusCode res) \<longrightarrow>
              on_end res = \<lparr>success = True, data = Some p, error = None\<rparr>)
       \<and> (\<forall>p. parsed_body res = Some p \<and> \<not> is_2xx (statusCode res) \<and> p \<noteq> JNull \<longrightarrow>
              on_end res = failure
                (if truthy_opt (get_prop p ''error'') then the (get_prop p ''error'')
                 else if truthy_opt (get_prop p ''message'') then the (get_prop p ''message'')
                 else JStr ''Request failed''))"
proof -
  have a: "fst (apiRequest e tr sent m endpoint d) = Inr (on_end res)"
    using assms by (simp add: apiRequest_answer)
  have b: "parsed_body res = None \<longrightarrow> on_end res = failure (JStr ''Failed to parse response'')"
    by (simp add: on_end_def)
  have c: "\<forall>p. parsed_body res = Some p \<and> is_2xx (statusCode res) \<longrightarrow>
              on_end res = \<lparr>success = True, data = Some p, error = None\<rparr>"
    by (simp add: on_end_def)
  have or_else_eq: "or_else x y = (if truthy_opt x then the x else y)" for x y
    by (cases x) simp_all
  have d: "\<forall>p. parsed_body res = Some p \<and> \<not> is_2xx (statusCode res) \<and> p \<noteq> JNull \<longrightarrow>
              on_end res = failure
                (if truthy_opt (get_prop p ''error'') then the (get_prop p ''error'')
                 else if truthy_opt (get_prop p ''message'') then the (get_prop p ''message'')
                 else JStr ''Request failed'')"
  proof (intro allI impI)
    fix p
    assume h: "parsed_body res = Some p \<and> \<not> is_2xx (statusCode res) \<and> p \<noteq> JNull"
    then have "on_end res = failure (or_else (get_prop p ''error'')
                 (or_else (get_prop p ''message'') (JStr ''Request failed'')))"
      by (cases p) (simp_all add: on_end_def)
    then show "on_end res = failure
                (if truthy_opt (get_prop p ''error'') then the (get_prop p ''error'')
                 else if truthy_opt (get_prop p ''message'') then the (get_prop p ''message'')
                 else JStr ''Request failed'')"
      by (simp only: or_else_eq)
  qed
  from a b c d show ?thesis by blast
qed

theorem apiRequest_envelope_witness:
  "fst (apiRequest
      \<lparr>MOLTBOOK_API_KEY = Some ''k'', CONFIG_FILE = ''credentials.json'', config_file = Absent\<rparr>
      (\<lambda>sent req. Answered \<lparr>statusCode = Some 404, res_headers = [],
                           parsed_body = Some (JObj [(''error'', JStr ''not found'')])\<rparr>)
      [] GET ''/posts/p1'' None)
   = Inr (failure (JStr ''not found''))
   \<and> fst (apiRequest
      \<lparr>MOLTBOOK_API_KEY = Some ''k'', CONFIG_FILE = ''credentials.json'', config_file = Absent\<rparr>
      (\<lambda>sent req. Answered \<lparr>statusCode = Some 200, res_headers = [],
                           parsed_body = Some (JObj [(''id'', JStr ''p1'')])\<rparr>)
      [] GET ''/posts/p1'' None)
   = Inr \<lparr>success = True, data = Some (JObj [(''id'', JStr ''p1'')]), error = None\<rparr>"
  using apiRequest_envelope
    [of "\<lparr>MOLTBOOK_API_KEY = Some ''k'', CONFIG_FILE = ''credentials.json'', config_file = Absent\<rparr>"
        "''k''"
        "\<lambda>sent req. Answered \<lparr>statusCode = Some 404, res_headers = [],
                             parsed_body = Some (JObj [(''error'', JStr ''not found'')])\<rparr>"
        "[]" GET "''/posts/p1''" None
        "\<lparr>statusCode = Some 404, res_headers = [],
          parsed_body = Some (JObj [(''error'', JStr ''not found'')])\<rparr>"]
    apiRequest_envelope
    [of "\<lparr>MOLTBOOK_API_KEY = Some ''k'', CONFIG_FILE = ''credentials.json'', config_file = Absent\<rparr>"
        "''k''"
        "\<lambda>sent req. Answered \<lparr>statusCode = Some 200, res_headers = [],
                             parsed_body = Some (JObj [(''id'', JStr ''p1'')])\<rparr>"
        "[]" GET "''/posts/p1''" None
        "\<lparr>statusCode = Some 200, res_headers = [],
          parsed_body = Some (JObj [(''id'', JStr ''p1'')])\<rparr>"]
  by (simp add: getApiKey_def)

text \<open>
  The library follows no redirect. \<^verbatim>\<open>apiRequest\<close> calls \<^verbatim>\<open>https.request\<close> once and makes
  no other call, whatever the status and the \<^verbatim>\<open>Location\<close> header of the answer: a 302
  answer ends the call with a failure envelope. The one call goes to the host
  \<^verbatim>\<open>www.moltbook.com\<close> with the resolved key in its \<^verbatim>\<open>Authorization\<close> header.
\<close>

lemma apiRequest_redirect_example:
  "apiRequest
     \<lparr>MOLTBOOK_API_KEY = Some ''k'', CONFIG_FILE = ''credentials.json'', config_file = Absent\<rparr>
     (\<lambda>sent req. Answered \<lparr>statusCode = Some 302,
                          res_headers = [(''Location'', ''https://www.moltbook.com/api/v1/agents/me/'')],
                          parsed_body = None\<rparr>)
     [] GET ''/agents/me'' None
   = (Inr (failure (JStr ''Failed to parse response'')),
      [\<lparr>hostname = ''www.moltbook.com'', path = ''/api/v1/agents/me'', verb = GET,
        headers = [(''Authorization'', ''Bearer k''), (''Content-Type'', ''application/json''),
                   (''User-Agent'', ''OpenClaw-Moltbook-Skill/1.0.0'')],
        body = None\<rparr>])"
  by (simp add: apiRequest_def getApiKey_def mk_request_def on_end_def)

lemma apiRequest_one_trusted_call:
  "\<exists>new. snd (apiRequest e tr sent m endpoint d) = sent @ new
        \<and> length new \<le> 1
        \<and> (\<forall>r \<in> set new. hostname r = ''www.moltbook.com''
               \<and> (\<exists>k. getApiKey e = Inr k
                      \<and> map_of (headers r) ''Authorization'' = Some (''Bearer '' @ k)))"
proof (cases "getApiKey e")
  case (Inl err)
  then have "snd (apiRequest e tr sent m endpoint d) = sent @ []"
    by (simp add: apiRequest_sent)
  then show ?thesis by (intro exI [of _ "[]"]) simp
next
  case (Inr k)
  let ?r = "if tr sent (mk_request k m endpoint d) = Threw
            then (mk_request k m endpoint d)\<lparr>body := None\<rparr> else mk_request k m endpoint d"
  from Inr have "snd (apiRequest e tr sent m endpoint d) = sent @ [?r]"
    by (simp add: apiRequest_sent)
  moreover have "hostname ?r = ''www.moltbook.com''"
    and "map_of (headers ?r) ''Authorization'' = Some (''Bearer '' @ k)"
    by (simp_all add: mk_request_def)
  ultimately show ?thesis
    using Inr by (intro exI [of _ "[?r]"]) simp
qed

section \<open>The actions: properties\<close>

text \<open>
  \<^verbatim>\<open>contribute_qf\<close> and \<^verbatim>\<open>join_pool\<close> check their arguments before anything is sent; a
  positive finite amount goes into the body as given.
\<close>

lemma contribute_qf_validates:
  "pool_id = [] \<or> \<not> number_truthy amount \<or> le_zero amount \<Longrightarrow>
   \<exists>msg. contribute_qf e tr sent pool_id amount = (Inl (Error (JStr msg)), sent)"
  by (auto simp: contribute_qf_def)

lemma contribute_qf_positive:
  "pool_id \<noteq> [] \<Longrightarrow> 0 < a \<Longrightarrow> getApiKey e = Inr k \<Longrightarrow>
   tr sent (mk_request k POST (''/qf/pools/'' @ pool_id @ ''/contribute'') (Some [(''amount'', JNum (Num a))])) \<noteq> Threw \<Longrightarrow>
   new_requests sent (contribute_qf e tr sent pool_id (Num a))
     = [mk_request k POST (''/qf/pools/'' @ pool_id @ ''/contribute'') (Some [(''amount'', JNum (Num a))])]"
  by (cases "tr sent (mk_request k POST (''/qf/pools/'' @ pool_id @ ''/contribute'') (Some [(''amount'', JNum (Num a))]))")
     (simp_all add: contribute_qf_def new_requests_def apiRequest_def Let_def)

lemma join_pool_validates:
  "join_pool e tr sent [] = (Inl (Error (JStr ''pool_id is required'')), sent)"
  by (simp add: join_pool_def)

text \<open>
  C3. \<^verbatim>\<open>discover_opportunities\<close> does not check its required argument \<^verbatim>\<open>query\<close>: called with
  the empty query (and a key in the environment) it hands a GET for \<^verbatim>\<open>/search?q=&limit=25\<close>
  to the transport, whatever the transport then answers.
\<close>

theorem discover_opportunities_empty_query_sent:
  "snd (discover_opportunities str
          \<lparr>MOLTBOOK_API_KEY = Some ''k'', CONFIG_FILE = ''credentials.json'', config_file = Absent\<rparr>
          tr [] [] None None None)
   = [\<lparr>hostname = ''www.moltbook.com'',
       path = ''/api/v1/search?q=&limit='' @ str (Some (JNum (Num 25))),
       verb = GET,
       headers = [(''Authorization'', ''Bearer k''), (''Content-Type'', ''application/json''),
                  (''User-Agent'', ''OpenClaw-Moltbook-Skill/1.0.0'')],
       body = None\<rparr>]"
  by (simp add: discover_opportunities_def apiRequest_def getApiKey_def mk_request_def
        search_endpoint_def encodeURIComponent_def fetch_submolt_posts_def Let_def
      split: outcome.splits)

lemma new_requests_apiRequest:
  "new_requests sent (apiRequest e tr sent m endpoint d) =
     (case getApiKey e of
        Inl err \<Rightarrow> []
      | Inr k \<Rightarrow> [if tr sent (mk_request k m endpoint d) = Threw
                  then (mk_request k m endpoint d)\<lparr>body := None\<rparr>
                  else mk_request k m endpoint d])"
  by (simp add: new_requests_def apiRequest_sent)

lemma apiRequest_threw:
  assumes "getApiKey e = Inr k"
  shows "fst (apiRequest e tr sent m endpoint d) = Inl RequestThrew
           \<longleftrightarrow> tr sent (mk_request k m endpoint d) = Threw"
  using assms by (simp add: apiRequest_def Let_def split: outcome.splits)

lemma get_no_body_apiRequest:
  "list_all (\<lambda>r. verb r = GET \<and> body r = None)
     (new_requests sent (apiRequest e tr sent GET endpoint None))"
  by (simp add: new_requests_apiRequest mk_request_def split: sum.splits)

lemma list_qf_pools_sent:
  "snd (list_qf_pools e tr sent) = snd (apiRequest e tr sent GET ''/qf/pools'' None)"
  by (simp add: list_qf_pools_def split: prod.splits sum.splits)

lemma get_qf_pool_sent:
  "snd (get_qf_pool e tr sent pool_id) = snd (apiRequest e tr sent GET (''/qf/pools/'' @ pool_id) None)"
  by (simp add: get_qf_pool_def split: prod.splits sum.splits)

lemma list_joined_pools_sent:
  "snd (list_joined_pools e tr sent) = snd (apiRequest e tr sent GET ''/pools/joined'' None)"
  by (simp add: list_joined_pools_def split: prod.splits sum.splits)

lemma get_profile_sent:
  "snd (get_profile e tr sent) = snd (apiRequest e tr sent GET ''/agents/me'' None)"
  by (simp add: get_profile_def split: prod.splits sum.splits)

lemma get_status_sent:
  "snd (get_status e tr sent) = snd (apiRequest e tr sent GET ''/agents/status'' None)"
  by (simp add: get_status_def split: prod.splits sum.splits)

lemma get_feed_sent:
  "snd (get_feed str e tr sent srt limit submolt)
     = snd (apiRequest e tr sent GET (feed_endpoint str (sort_or_hot srt) (limit_or_25 limit) submolt) None)"
  by (simp add: get_feed_def split: prod.splits sum.splits)

lemma join_pool_sent:
  "pool_id \<noteq> [] \<Longrightarrow>
   snd (join_pool e tr sent pool_id) = snd (apiRequest e tr sent POST (''/pools/'' @ pool_id @ ''/join'') (Some []))"
  by (simp add: join_pool_def split: prod.splits sum.splits)

lemma fetch_submolt_posts_sent:
  "snd (fetch_submolt_posts str e tr sent lmt srt submolt) =
     (if str_truthy submolt
      then snd (apiRequest e tr sent GET (submolt_posts_endpoint str (the submolt) srt lmt) None)
      else sent)"
proof (cases submolt)
  case None
  then show ?thesis by (simp add: fetch_submolt_posts_def)
next
  case (Some s)
  then show ?thesis
    by (cases "apiRequest e tr sent GET (submolt_posts_endpoint str s srt lmt) None")
       (auto simp: fetch_submolt_posts_def split: sum.splits)
qed

lemma get_no_body_discover:
  "list_all (\<lambda>r. verb r = GET \<and> body r = None)
     (new_requests sent (discover_opportunities str e tr sent query limit srt submolt))"
proof -
  let ?P = "\<lambda>r. verb r = GET \<and> body r = None"
  let ?ep = "search_endpoint str query (limit_or_25 limit)"
  obtain a sent1 where first: "apiRequest e tr sent GET ?ep None = (a, sent1)"
    by (cases "apiRequest e tr sent GET ?ep None")
  obtain n1 where s1: "sent1 = sent @ n1" and p1: "list_all ?P n1"
    using first get_no_body_apiRequest [of sent e tr ?ep] apiRequest_sent [of e tr sent GET ?ep None]
    by (auto simp: new_requests_def)
  let ?F = "fetch_submolt_posts str e tr sent1 (limit_or_25 limit) (sort_or_hot srt) submolt"
  have second: "\<exists>n2. snd ?F = sent1 @ n2 \<and> list_all ?P n2"
  proof (cases "str_truthy submolt")
    case False
    then have "snd ?F = sent1" by (simp add: fetch_submolt_posts_sent)
    then show ?thesis by (intro exI [of _ "[]"]) simp
  next
    case True
    let ?ep2 = "submolt_posts_endpoint str (the submolt) (sort_or_hot srt) (limit_or_25 limit)"
    from True have f: "snd ?F = snd (apiRequest e tr sent1 GET ?ep2 None)"
      by (simp add: fetch_submolt_posts_sent)
    have "list_all ?P (new_requests sent1 (apiRequest e tr sent1 GET ?ep2 None))"
      by (rule get_no_body_apiRequest)
    moreover have "snd (apiRequest e tr sent1 GET ?ep2 None)
                     = sent1 @ new_requests sent1 (apiRequest e tr sent1 GET ?ep2 None)"
      by (simp add: new_requests_def apiRequest_sent)
    ultimately show ?thesis using f by metis
  qed
  then obtain n2 where s2: "snd ?F = sent1 @ n2" and p2: "list_all ?P n2" by blast
  have "snd (discover_opportunities str e tr sent query limit srt submolt) = sent1
        \<or> snd (discover_opportunities str e tr sent query limit srt submolt) = snd ?F"
    using first by (auto simp: discover_opportunities_def split: prod.splits sum.splits)
  then show ?thesis
    using s1 s2 p1 p2 by (auto simp: new_requests_def)
qed

lemma join_pool_fst:
  assumes "pool_id \<noteq> []"
  shows "fst (join_pool e tr sent pool_id) = Inl RequestThrew
           \<longleftrightarrow> fst (apiRequest e tr sent POST (''/pools/'' @ pool_id @ ''/join'') (Some [])) = Inl RequestThrew"
  using assms
  by (cases "apiRequest e tr sent POST (''/pools/'' @ pool_id @ ''/join'') (Some [])")
     (auto simp: join_pool_def split: sum.splits)

text \<open>
  C9, as the source has it. The body is written after \<^verbatim>\<open>https.request\<close> has returned a
  request. For the pool \<^verbatim>\<open>a b\<close> the path holds a space, \<^verbatim>\<open>https.request\<close> throws, and
  \<^verbatim>\<open>join_pool\<close> is rejected without any body having been written.
\<close>

theorem join_pool_throw_counterexample:
  "join_pool
     \<lparr>MOLTBOOK_API_KEY = Some ''k'', CONFIG_FILE = ''credentials.json'', config_file = Absent\<rparr>
     (\<lambda>sent req. if CHR '' '' \<in> set (path req) then Threw
                 else Answered \<lparr>statusCode = Some 200, res_headers = [], parsed_body = Some (JObj [])\<rparr>)
     [] ''a b''
   = (Inl RequestThrew,
      [\<lparr>hostname = ''www.moltbook.com'', path = ''/api/v1/pools/a b/join'', verb = POST,
        headers = [(''Authorization'', ''Bearer k''), (''Content-Type'', ''application/json''),
                   (''User-Agent'', ''OpenClaw-Moltbook-Skill/1.0.0'')],
        body = None\<rparr>])"
  by (simp add: join_pool_def apiRequest_def getApiKey_def mk_request_def)

text \<open>
  C9, amended. A call of \<^verbatim>\<open>apiRequest\<close> without data writes no body. A call with the
  empty object writes the empty object, unless \<^verbatim>\<open>https.request\<close> throws: the two requests
  differ. \<^verbatim>\<open>join_pool\<close>, unless \<^verbatim>\<open>https.request\<close> throws, sends a POST with the empty
  object as its body. Every call made by the GET actions (the list, detail, profile,
  status, feed and search calls) has no body.
\<close>

theorem body_absent_or_empty_object:
  assumes "getApiKey e = Inr k"
  shows "map body (new_requests sent (apiRequest e tr sent m endpoint None)) = [None]
       \<and> (fst (apiRequest e tr sent m endpoint (Some [])) \<noteq> Inl RequestThrew \<longrightarrow>
            map body (new_requests sent (apiRequest e tr sent m endpoint (Some []))) = [Some (JObj [])])
       \<and> (pool_id \<noteq> [] \<and> fst (join_pool e tr sent pool_id) \<noteq> Inl RequestThrew \<longrightarrow>
            map (\<lambda>r. (verb r, body r)) (new_requests sent (join_pool e tr sent pool_id))
              = [(POST, Some (JObj []))])
       \<and> list_all (\<lambda>r. verb r = GET \<and> body r = None) (new_requests sent (list_qf_pools e tr sent))
       \<and> list_all (\<lambda>r. verb r = GET \<and> body r = None) (new_requests sent (get_qf_pool e tr sent pool_id))
       \<and> list_all (\<lambda>r. verb r = GET \<and> body r = None) (new_requests sent (list_joined_pools e tr sent))
       \<and> list_all (\<lambda>r. verb r = GET \<and> body r = None) (new_requests sent (get_profile e tr sent))
       \<and> list_all (\<lambda>r. verb r = GET \<and> body r = None) (new_requests sent (get_status e tr sent))
       \<and> list_all (\<lambda>r. verb r = GET \<and> body r = None)
            (new_requests sent (get_feed str e tr sent srt limit submolt))
       \<and> list_all (\<lambda>r. verb r = GET \<and> body r = None)
            (new_requests sent (discover_opportunities str e tr sent query limit srt submolt))"
proof -
  have absent: "map body (new_requests sent (apiRequest e tr sent m endpoint None)) = [None]"
    using assms by (simp add: new_requests_apiRequest mk_request_def)
  have empty: "fst (apiRequest e tr sent m endpoint (Some [])) \<noteq> Inl RequestThrew \<longrightarrow>
            map body (new_requests sent (apiRequest e tr sent m endpoint (Some []))) = [Some (JObj [])]"
    using assms by (simp add: apiRequest_threw new_requests_apiRequest mk_request_def)
  have join: "pool_id \<noteq> [] \<and> fst (join_pool e tr sent pool_id) \<noteq> Inl RequestThrew \<longrightarrow>
            map (\<lambda>r. (verb r, body r)) (new_requests sent (join_pool e tr sent pool_id))
              = [(POST, Some (JObj []))]"
  proof
    assume h: "pool_id \<noteq> [] \<and> fst (join_pool e tr sent pool_id) \<noteq> Inl RequestThrew"
    then have "fst (apiRequest e tr sent POST (''/pools/'' @ pool_id @ ''/join'') (Some [])) \<noteq> Inl RequestThrew"
      using join_pool_fst by blast
    then have "tr sent (mk_request k POST (''/pools/'' @ pool_id @ ''/join'') (Some [])) \<noteq> Threw"
      using apiRequest_threw [OF assms] by blast
    with h assms
    show "map (\<lambda>r. (verb r, body r)) (new_requests sent (join_pool e tr sent pool_id))
            = [(POST, Some (JObj []))]"
      by (simp add: new_requests_def join_pool_sent apiRequest_sent mk_request_def)
  qed
  have g1: "list_all (\<lambda>r. verb r = GET \<and> body r = None) (new_requests sent (list_qf_pools e tr sent))"
    using get_no_body_apiRequest [of sent e tr "''/qf/pools''"]
    by (simp add: new_requests_def list_qf_pools_sent)
  have g2: "list_all (\<lambda>r. verb r = GET \<and> body r = None) (new_requests sent (get_qf_pool e tr sent pool_id))"
    using get_no_body_apiRequest [of sent e tr "''/qf/pools/'' @ pool_id"]
    by (simp add: new_requests_def get_qf_pool_sent)
  have g3: "list_all (\<lambda>r. verb r = GET \<and> body r = None) (new_requests sent (list_joined_pools e tr sent))"
    using get_no_body_apiRequest [of sent e tr "''/pools/joined''"]
    by (simp add: new_requests_def list_joined_pools_sent)
  have g4: "list_all (\<lambda>r. verb r = GET \<and> body r = None) (new_requests sent (get_profile e tr sent))"
    using get_no_body_apiRequest [of sent e tr "''/agents/me''"]
    by (simp add: new_requests_def get_profile_sent)
  have g5: "list_all (\<lambda>r. verb r = GET \<and> body r = None) (new_requests sent (get_status e tr sent))"
    using get_no_body_apiRequest [of sent e tr "''/agents/status''"]
    by (simp add: new_requests_def get_status_sent)
  have g6: "list_all (\<lambda>r. verb r = GET \<and> body r = None)
            (new_requests sent (get_feed str e tr sent srt limit submolt))"
    using get_no_body_apiRequest [of sent e tr "feed_endpoint str (sort_or_hot srt) (limit_or_25 limit) submolt"]
    by (simp add: new_requests_def get_feed_sent)
  note g7 = get_no_body_discover [of sent str e tr query limit srt submolt]
  from absent empty join g1 g2 g3 g4 g5 g6 g7 show ?thesis by blast
qed

theorem body_absent_or_empty_object_witness:
  "map (\<lambda>r. (verb r, body r))
     (new_requests []
        (join_pool \<lparr>MOLTBOOK_API_KEY = Some ''k'', CONFIG_FILE = ''credentials.json'', config_file = Absent\<rparr>
           (\<lambda>sent req. ErrorEvent) [] ''pool456''))
     = [(POST, Some (JObj []))]
   \<and> map body
     (new_requests []
        (apiRequest \<lparr>MOLTBOOK_API_KEY = Some ''k'', CONFIG_FILE = ''credentials.json'', config_file = Absent\<rparr>
           (\<lambda>sent req. ErrorEvent) [] DELETE ''/pools/pool456/leave'' None))
     = [None]"
proof -
  have key: "getApiKey \<lparr>MOLTBOOK_API_KEY = Some ''k'', CONFIG_FILE = ''credentials.json'', config_file = Absent\<rparr> = Inr ''k''"
    by (simp add: getApiKey_def)
  have ok: "fst (join_pool \<lparr>MOLTBOOK_API_KEY = Some ''k'', CONFIG_FILE = ''credentials.json'', config_file = Absent\<rparr> (\<lambda>sent req. ErrorEvent) [] ''pool456'') \<noteq> Inl RequestThrew"
    by (simp add: join_pool_def apiRequest_def getApiKey_def)
  from body_absent_or_empty_object
    [of "\<lparr>MOLTBOOK_API_KEY = Some ''k'', CONFIG_FILE = ''credentials.json'', config_file = Absent\<rparr>" "''k''" "[]" "\<lambda>sent req. ErrorEvent" DELETE "''/pools/pool456/leave''" "''pool456''"]
    key ok
  show ?thesis by simp
qed

text \<open>
  What \<^verbatim>\<open>discover_opportunities\<close> returns when every field has the declared type: the
  posts of the search followed by \<^verbatim>\<open>submoltPosts\<close>, and a \<^verbatim>\<open>total_results\<close> that counts the
  posts, agents and submolts of the search alone.
\<close>

lemma discover_result_arrays:
  assumes "opt_chain d ''posts'' = Some (JArr ps)" and "opt_chain d ''agents'' = Some (JArr ags)"
    and "opt_chain d ''submolts'' = Some (JArr sms)"
  shows "discover_result d (JArr sps)
           = Inr \<lparr>posts = ps @ sps, agents = JArr ags, submolts = JArr sms,
                  total_results = Count (length ps + length ags + length sms)\<rparr>"
  using assms by (simp add: discover_result_def)

text \<open>\<^verbatim>\<open>total_results\<close> never depends on \<^verbatim>\<open>submoltPosts\<close>.\<close>

lemma discover_result_total:
  assumes "discover_result d submoltPosts = Inr r"
  shows "total_results r = plus3 (length_or_0 (opt_chain d ''posts''))
                                 (length_or_0 (opt_chain d ''agents''))
                                 (length_or_0 (opt_chain d ''submolts''))"
  using assms by (auto simp: discover_result_def split: sum.splits)

text \<open>
  When the community call answers with an object that holds its posts under \<^verbatim>\<open>posts\<close>,
  they are appended; \<^verbatim>\<open>get_feed\<close>, which calls the same endpoint, takes a bare array
  as well.
\<close>

lemma discover_opportunities_object_answer:
  "fst (discover_opportunities str
          \<lparr>MOLTBOOK_API_KEY = Some ''k'', CONFIG_FILE = ''credentials.json'', config_file = Absent\<rparr>
          (\<lambda>sent req.
          if sent = []
          then Answered \<lparr>statusCode = Some 200, res_headers = [],
                         parsed_body = Some (JObj [(''posts'', JArr [JObj [(''id'', JStr ''p0'')]])])\<rparr>
          else Answered \<lparr>statusCode = Some 200, res_headers = [],
                         parsed_body = Some (JObj [(''posts'', JArr [JObj [(''id'', JStr ''p1'')]])])\<rparr>)
          [] ''bounty'' None None (Some ''automation''))
   = Inr \<lparr>posts = [JObj [(''id'', JStr ''p0'')], JObj [(''id'', JStr ''p1'')]],
            agents = JArr [], submolts = JArr [], total_results = Count 1\<rparr>"
  by (simp add: discover_opportunities_def apiRequest_def getApiKey_def on_end_def
        fetch_submolt_posts_def discover_result_def Let_def)

lemma get_feed_bare_array:
  "fst (get_feed str
          \<lparr>MOLTBOOK_API_KEY = Some ''k'', CONFIG_FILE = ''credentials.json'', config_file = Absent\<rparr>
          (\<lambda>sent req. Answered \<lparr>statusCode = Some 200, res_headers = [],
                         parsed_body = Some (JArr [JObj [(''id'', JStr ''p1'')]])\<rparr>)
          [] None None (Some ''automation''))
   = Inr (JArr [JObj [(''id'', JStr ''p1'')]])"
  by (simp add: get_feed_def apiRequest_def getApiKey_def on_end_def Let_def)

text \<open>
  C10. With a submolt given, a search that finds the post \<^verbatim>\<open>p0\<close> and a community call
  that answers with the bare array holding the post \<^verbatim>\<open>p1\<close>, \<^verbatim>\<open>discover_opportunities\<close>
  drops the community's post: it returns the single post \<^verbatim>\<open>p0\<close> and \<^verbatim>\<open>total_results\<close> 1,
  so the returned posts are not more than \<^verbatim>\<open>total_results\<close> less the agents and the
  submolts.
\<close>

theorem discover_opportunities_drops_bare_array:
  "fst (discover_opportunities str
          \<lparr>MOLTBOOK_API_KEY = Some ''k'', CONFIG_FILE = ''credentials.json'', config_file = Absent\<rparr>
          (\<lambda>sent req.
          if sent = []
          then Answered \<lparr>statusCode = Some 200, res_headers = [],
                         parsed_body = Some (JObj [(''posts'', JArr [JObj [(''id'', JStr ''p0'')]])])\<rparr>
          else Answered \<lparr>statusCode = Some 200, res_headers = [],
                         parsed_body = Some (JArr [JObj [(''id'', JStr ''p1'')]])\<rparr>)
          [] ''bounty'' None None (Some ''automation''))
   = Inr \<lparr>posts = [JObj [(''id'', JStr ''p0'')]],
            agents = JArr [], submolts = JArr [], total_results = Count 1\<rparr>"
  by (simp add: discover_opportunities_def apiRequest_def getApiKey_def on_end_def
        fetch_submolt_posts_def discover_result_def Let_def)

text \<open>The request \<^verbatim>\<open>post_update\<close> builds once its arguments pass the checks.\<close>

lemma post_update_request:
  "mk_request k POST ''/posts'' (Some (postData submolt title content url))
   = \<lparr>hostname = ''www.moltbook.com'', path = ''/api/v1/posts'', verb = POST,
                    headers = [(''Authorization'', ''Bearer '' @ k),
                               (''Content-Type'', ''application/json''),
                               (''User-Agent'', ''OpenClaw-Moltbook-Skill/1.0.0'')],
                    body = Some (JObj
                      ([(''submolt'', JStr submolt), (''title'', JStr title)]
                       @ (if str_truthy content then [(''content'', JStr (the content))] else [])
                       @ (if str_truthy url then [(''url'', JStr (the url))] else [])))\<rparr>"
  by (cases content; cases url) (simp_all add: mk_request_def postData_def)

text \<open>
  C6. With \<^verbatim>\<open>submolt\<close> and \<^verbatim>\<open>title\<close> given, \<^verbatim>\<open>post_update\<close> fails before any call when
  neither \<^verbatim>\<open>content\<close> nor \<^verbatim>\<open>url\<close> is supplied. When at least one is supplied it passes
  the checks and, with a key resolved and \<^verbatim>\<open>https.request\<close> accepting the call, makes one
  POST to \<^verbatim>\<open>/api/v1/posts\<close> whose body is the object of \<^verbatim>\<open>submolt\<close>, \<^verbatim>\<open>title\<close>, then
  \<^verbatim>\<open>content\<close> exactly when it was supplied and \<^verbatim>\<open>url\<close> exactly when it was supplied, each
  with the text given and none as \<^verbatim>\<open>null\<close>; and it returns a result once the server
  answers that request with success.
\<close>

theorem post_update_either_or:
  assumes "submolt \<noteq> []" and "title \<noteq> []"
  shows "(\<not> str_truthy content \<and> \<not> str_truthy url \<longrightarrow>
            post_update str e tr sent submolt title content url
              = (Inl (Error (JStr ''Either content or url is required'')), sent))
       \<and> (str_truthy content \<or> str_truthy url \<longrightarrow>
            (\<forall>k. getApiKey e = Inr k \<longrightarrow>
               (let R = \<lparr>hostname = ''www.moltbook.com'', path = ''/api/v1/posts'', verb = POST,
                    headers = [(''Authorization'', ''Bearer '' @ k),
                               (''Content-Type'', ''application/json''),
                               (''User-Agent'', ''OpenClaw-Moltbook-Skill/1.0.0'')],
                    body = Some (JObj
                      ([(''submolt'', JStr submolt), (''title'', JStr title)]
                       @ (if str_truthy content then [(''content'', JStr (the content))] else [])
                       @ (if str_truthy url then [(''url'', JStr (the url))] else [])))\<rparr>
                in (tr sent R \<noteq> Threw \<longrightarrow>
                      new_requests sent (post_update str e tr sent submolt title content url) = [R])
                 \<and> (\<forall>res. tr sent R = Answered res \<and> success (on_end res) \<longrightarrow>
                        (\<exists>v. fst (post_update str e tr sent submolt title content url) = Inr v)))))"
proof -
  have neither: "\<not> str_truthy content \<and> \<not> str_truthy url \<longrightarrow>
            post_update str e tr sent submolt title content url
              = (Inl (Error (JStr ''Either content or url is required'')), sent)"
    using assms by (simp add: post_update_def)
  have some: "str_truthy content \<or> str_truthy url \<longrightarrow>
            (\<forall>k. getApiKey e = Inr k \<longrightarrow>
               (let R = \<lparr>hostname = ''www.moltbook.com'', path = ''/api/v1/posts'', verb = POST,
                    headers = [(''Authorization'', ''Bearer '' @ k),
                               (''Content-Type'', ''application/json''),
                               (''User-Agent'', ''OpenClaw-Moltbook-Skill/1.0.0'')],
                    body = Some (JObj
                      ([(''submolt'', JStr submolt), (''title'', JStr title)]
                       @ (if str_truthy content then [(''content'', JStr (the content))] else [])
                       @ (if str_truthy url then [(''url'', JStr (the url))] else [])))\<rparr>
                in (tr sent R \<noteq> Threw \<longrightarrow>
                      new_requests sent (post_update str e tr sent submolt title content url) = [R])
                 \<and> (\<forall>res. tr sent R = Answered res \<and> success (on_end res) \<longrightarrow>
                        (\<exists>v. fst (post_update str e tr sent submolt title content url) = Inr v))))"
  proof (intro impI allI)
    fix k
    assume sup: "str_truthy content \<or> str_truthy url" and key: "getApiKey e = Inr k"
    let ?req = "mk_request k POST ''/posts'' (Some (postData submolt title content url))"
    from sup have valid: "\<not> (\<not> str_truthy content \<and> \<not> str_truthy url)" by blast
    have made: "tr sent ?req \<noteq> Threw \<longrightarrow>
                  new_requests sent (post_update str e tr sent submolt title content url) = [?req]"
      using assms valid key
      by (cases "tr sent ?req")
         (simp_all add: post_update_def apiRequest_def new_requests_def Let_def)
    have answered: "\<forall>res. tr sent ?req = Answered res \<and> success (on_end res) \<longrightarrow>
                     (\<exists>v. fst (post_update str e tr sent submolt title content url) = Inr v)"
    proof (intro allI impI)
      fix res
      assume "tr sent ?req = Answered res \<and> success (on_end res)"
      then show "\<exists>v. fst (post_update str e tr sent submolt title content url) = Inr v"
        using assms valid key
        by (simp add: post_update_def apiRequest_def Let_def)
    qed
    from made answered
    show "let R = \<lparr>hostname = ''www.moltbook.com'', path = ''/api/v1/posts'', verb = POST,
                    headers = [(''Authorization'', ''Bearer '' @ k),
                               (''Content-Type'', ''application/json''),
                               (''User-Agent'', ''OpenClaw-Moltbook-Skill/1.0.0'')],
                    body = Some (JObj
                      ([(''submolt'', JStr submolt), (''title'', JStr title)]
                       @ (if str_truthy content then [(''content'', JStr (the content))] else [])
                       @ (if str_truthy url then [(''url'', JStr (the url))] else [])))\<rparr>
          in (tr sent R \<noteq> Threw \<longrightarrow>
                new_requests sent (post_update str e tr sent submolt title content url) = [R])
           \<and> (\<forall>res. tr sent R = Answered res \<and> success (on_end res) \<longrightarrow>
                  (\<exists>v. fst (post_update str e tr sent submolt title content url) = Inr v))"
      unfolding Let_def post_update_request [symmetric] by blast
  qed
  from neither some show ?thesis by blast
qed

theorem post_update_either_or_witness:
  "new_requests []
     (post_update (\<lambda>v. [])
        \<lparr>MOLTBOOK_API_KEY = Some ''k'', CONFIG_FILE = ''credentials.json'', config_file = Absent\<rparr>
        (\<lambda>sent req. ErrorEvent) [] ''general'' ''Hello'' (Some ''First post'') (Some ''https://example.com''))
     = [\<lparr>hostname = ''www.moltbook.com'', path = ''/api/v1/posts'', verb = POST,
         headers = [(''Authorization'', ''Bearer k''), (''Content-Type'', ''application/json''),
                    (''User-Agent'', ''OpenClaw-Moltbook-Skill/1.0.0'')],
         body = Some (JObj [(''submolt'', JStr ''general''), (''title'', JStr ''Hello''),
                            (''content'', JStr ''First post''), (''url'', JStr ''https://example.com'')])\<rparr>]
   \<and> post_update (\<lambda>v. [])
          \<lparr>MOLTBOOK_API_KEY = Some ''k'', CONFIG_FILE = ''credentials.json'', config_file = Absent\<rparr>
          (\<lambda>sent req. ErrorEvent) [] ''general'' ''Hello'' None None
     = (Inl (Error (JStr ''Either content or url is required'')), [])"
  using post_update_either_or
    [of "''general''" "''Hello''" "Some ''First post''" "Some ''https://example.com''" "\<lambda>v. []"
        "\<lparr>MOLTBOOK_API_KEY = Some ''k'', CONFIG_FILE = ''credentials.json'', config_file = Absent\<rparr>"
        "\<lambda>sent req. ErrorEvent" "[]"]
    post_update_either_or
    [of "''general''" "''Hello''" None None "\<lambda>v. []"
        "\<lparr>MOLTBOOK_API_KEY = Some ''k'', CONFIG_FILE = ''credentials.json'', config_file = Absent\<rparr>"
        "\<lambda>sent req. ErrorEvent" "[]"]
  by (simp add: getApiKey_def Let_def)

text \<open>
  The library encodes the query of a search: what \<^verbatim>\<open>encodeURIComponent\<close> returns holds
  neither a space nor an ampersand.
\<close>

lemma hex_digit_in: "hex_digit n \<in> set ''0123456789ABCDEF''"
proof -
  have "n mod 16 < length ''0123456789ABCDEF''" by simp
  then show ?thesis unfolding hex_digit_def by (rule nth_mem)
qed

lemma pct_encode_chars:
  assumes "c \<in> set (pct_encode x)"
  shows "c = CHR ''%'' \<or> c \<in> set ''0123456789ABCDEF''"
proof -
  from assms have "c = CHR ''%'' \<or> c = hex_digit (of_char x div 16) \<or> c = hex_digit (of_char x mod 16)"
    by (simp add: pct_encode_def)
  then show ?thesis using hex_digit_in by metis
qed

lemma encodeURIComponent_chars:
  assumes "c \<in> set (encodeURIComponent s)"
  shows "uri_unreserved c \<or> c = CHR ''%'' \<or> c \<in> set ''0123456789ABCDEF''"
proof -
  from assms obtain x where "x \<in> set s"
    and c: "c \<in> set (if uri_unreserved x then [x] else pct_encode x)"
    unfolding encodeURIComponent_def by auto
  show ?thesis
  proof (cases "uri_unreserved x")
    case True
    with c show ?thesis by simp
  next
    case False
    with c have "c \<in> set (pct_encode x)" by simp
    then show ?thesis using pct_encode_chars by blast
  qed
qed

lemma encodeURIComponent_escapes:
  "CHR '' '' \<notin> set (encodeURIComponent s) \<and> CHR ''&'' \<notin> set (encodeURIComponent s)"
proof -
  have "\<not> (uri_unreserved (CHR '' '') \<or> CHR '' '' = CHR ''%'' \<or> CHR '' '' \<in> set ''0123456789ABCDEF'')"
    by (simp add: uri_unreserved_def)
  moreover have "\<not> (uri_unreserved (CHR ''&'') \<or> CHR ''&'' = CHR ''%'' \<or> CHR ''&'' \<in> set ''0123456789ABCDEF'')"
    by (simp add: uri_unreserved_def)
  ultimately show ?thesis using encodeURIComponent_chars by blast
qed

lemma encodeURIComponent_example: "encodeURIComponent ''a b&c'' = ''a%20b%26c''"
  by (simp add: encodeURIComponent_def uri_unreserved_def pct_encode_def hex_digit_def)

section \<open>The shell client: properties\<close>

text \<open>
  An environment value that \<^verbatim>\<open>echo\<close> prints as it is, and that does not end in a newline,
  becomes the key of the script, whatever the configuration file holds.
\<close>

lemma strip_newlines_echo:
  assumes "v \<noteq> []" and "last v \<noteq> newline"
  shows "strip_newlines (v @ [newline]) = v"
proof -
  from assms obtain xs x where v: "v = xs @ [x]" and x: "x \<noteq> newline"
    by (cases v rule: rev_cases) auto
  then show ?thesis by (simp add: strip_newlines_def)
qed

lemma startup_API_KEY_env:
  assumes "v \<noteq> []" and "\<not> is_echo_option v" and "last v \<noteq> newline"
  shows "startup_API_KEY v cfg = Some v"
  using assms by (simp add: startup_API_KEY_def get_api_key_def echo_def strip_newlines_echo)

text \<open>
  C4. In the shell client the environment value does not always come back. With
  \<^verbatim>\<open>MOLTBOOK_API_KEY\<close> set to \<^verbatim>\<open>-n\<close> the test \<^verbatim>\<open>[ -n ... ]\<close> succeeds, \<^verbatim>\<open>echo\<close> takes the value
  as an option and prints nothing, \<^verbatim>\<open>API_KEY\<close> is empty although the configuration file
  holds a key, and a command such as \<^verbatim>\<open>profile\<close> stops in \<^verbatim>\<open>check_auth\<close>.
\<close>

theorem startup_API_KEY_echo_option:
  "get_api_key ''-n'' (JqPrints (''file-key'' @ [newline])) = Some []
   \<and> startup_API_KEY ''-n'' (JqPrints (''file-key'' @ [newline])) = Some []
   \<and> map_option cmd_profile (startup_API_KEY ''-n'' (JqPrints (''file-key'' @ [newline]))) = Some NoKey"
  by (simp add: startup_API_KEY_def get_api_key_def echo_def is_echo_option_def strip_newlines_def
        cmd_profile_def)

text \<open>
  Every \<^verbatim>\<open>curl\<close> call of the script carries the key in an \<^verbatim>\<open>Authorization\<close> header and the
  option \<^verbatim>\<open>--location-trusted\<close>.
\<close>

lemma api_request_trusted:
  "location_trusted (api_request API_KEY m endpoint d)
   \<and> map_of (curl_headers (api_request API_KEY m endpoint d)) ''Authorization''
       = Some (''Bearer '' @ API_KEY)"
  by (simp add: api_request_def)

text \<open>
  C2. The shell command \<^verbatim>\<open>profile\<close>, run with the key \<^verbatim>\<open>k\<close>, calls \<^verbatim>\<open>curl\<close> with the header
  \<^verbatim>\<open>Authorization: Bearer k\<close> and with \<^verbatim>\<open>--location-trusted\<close>, the option by which \<^verbatim>\<open>curl\<close>
  repeats the request, credentials included, at whatever host a redirect names.
\<close>

theorem cmd_profile_location_trusted:
  "cmd_profile ''k''
   = Ran \<lparr>curl_verb = GET,
          curl_url = ''https://www.moltbook.com/api/v1/agents/me'',
          curl_headers = [(''Authorization'', ''Bearer k''), (''Content-Type'', ''application/json'')],
          curl_data = None,
          location_trusted = True\<rparr>"
  by (simp add: cmd_profile_def api_request_def BASE_URL_def)

text \<open>
  \<^verbatim>\<open>cmd_discover\<close> stops at an empty query, and places the encoded query in the URL.
\<close>

lemma cmd_discover_usage:
  "cmd_discover uri API_KEY [] = Usage ''Usage: moltbook.sh discover <query>''"
  by (simp add: cmd_discover_def)

lemma cmd_discover_url:
  assumes "query \<noteq> []" and "API_KEY \<noteq> []"
  shows "\<exists>c. cmd_discover uri API_KEY query = Ran c
           \<and> curl_url c = ''https://www.moltbook.com/api/v1/search?q='' @ uri query @ ''&limit=25''"
  using assms by (simp add: cmd_discover_def api_request_def BASE_URL_def)

text \<open>
  C7. The shell command \<^verbatim>\<open>qf_contribute\<close> checks only that the amount is not empty. With
  the amount \<^verbatim>\<open>-5\<close> it runs \<^verbatim>\<open>curl\<close> with a POST to the pool's contribute path: the body is
  \<^verbatim>\<open>{"amount": -5}\<close> when \<^verbatim>\<open>tonumber\<close> yields the number, and no body at all when it fails.
\<close>

theorem cmd_qf_contribute_negative_amount_sent:
  "cmd_qf_contribute tonumber ''k'' ''pool123'' ''-5''
   = Ran \<lparr>curl_verb = POST,
          curl_url = ''https://www.moltbook.com/api/v1/qf/pools/pool123/contribute'',
          curl_headers = [(''Authorization'', ''Bearer k''), (''Content-Type'', ''application/json'')],
          curl_data = map_option (\<lambda>n. JObj [(''amount'', JNum n)]) (tonumber ''-5''),
          location_trusted = True\<rparr>"
  by (simp add: cmd_qf_contribute_def api_request_def BASE_URL_def)

text \<open>
  C8. The shell command \<^verbatim>\<open>agent_info\<close> places its argument in the query string as it is:
  for the name \<^verbatim>\<open>a b&c\<close> the URL given to \<^verbatim>\<open>curl\<close> holds the space and the ampersand.
\<close>

theorem cmd_agent_info_url_not_encoded:
  "cmd_agent_info ''k'' ''a b&c''
   = Ran \<lparr>curl_verb = GET,
          curl_url = ''https://www.moltbook.com/api/v1/agents/profile?name=a b&c'',
          curl_headers = [(''Authorization'', ''Bearer k''), (''Content-Type'', ''application/json'')],
          curl_data = None,
          location_trusted = True\<rparr>"
  by (simp add: cmd_agent_info_def api_request_def BASE_URL_def)

end
